theory Spec2Isabelle
  imports Main
begin

section \<open>ParkPin: the map screen and its persisted marker\<close>

text \<open>
  The repository holds two variants of one React Native screen,
  \<^verbatim>\<open>src/app/(tabs)/_layout.tsx\<close> (side menu, dark map, the buttons to remove the marker
  and to centre the map) and \<^verbatim>\<open>src/app/app.tsx\<close> (the plain screen). Their
  \<^verbatim>\<open>loadMarker\<close>, \<^verbatim>\<open>handleSetMarker\<close> and \<^verbatim>\<open>initialRegion\<close> are the same
  text, so one embedding serves both.

  The screen's code is a handful of handlers over platform calls: AsyncStorage, the
  location service, \<^verbatim>\<open>JSON.parse\<close> and \<^verbatim>\<open>JSON.stringify\<close>, \<^verbatim>\<open>Alert.alert\<close>,
  \<^verbatim>\<open>console.log\<close> and the map's \<^verbatim>\<open>animateToRegion\<close>. The handlers are translated
  line by line. What a platform call answers (the permission status, the position fix,
  whether a storage promise resolves or rejects) is an argument of the handler; what a
  handler does to the world (the React state, the storage, the calls it makes, in order)
  is the state it returns. A handler runs to its end before the next one starts: two
  handlers pending at once are not modelled, and neither are the limits of a device
  (the size of the storage, the depth of the parser's stack).
\<close>

subsection \<open>Strings\<close>

text \<open>
  A JavaScript string is a sequence of UTF-16 code units. A code unit is a \<^typ>\<open>nat\<close>
  here (every code unit is one; the parser below reads a number above \<open>0xFFFF\<close> as an
  ordinary character). \<open>str\<close> turns a literal of this file into code units.
\<close>

type_synonym jstring = "nat list"

definition str :: "string \<Rightarrow> jstring" where
  "str cs = map of_char cs"

definition is_digit :: "nat \<Rightarrow> bool" where
  "is_digit c = (48 \<le> c \<and> c \<le> 57)"

subsection \<open>Numbers\<close>

text \<open>
  A JavaScript number is an IEEE 754 binary64 value. The screen never computes with a
  number: it compares one with zero (the \<^verbatim>\<open>||\<close> of \<^verbatim>\<open>initialRegion\<close>), prints it
  (\<^verbatim>\<open>JSON.stringify\<close>) and reads it back (\<^verbatim>\<open>JSON.parse\<close>). A finite number is
  therefore kept as the decimal that ECMAScript's \<^verbatim>\<open>Number::toString\<close> prints for it:
  an integer \<open>m\<close> with no trailing zero and an exponent \<open>e\<close>, standing for
  \<open>m * 10 ^ e\<close> (zero is \<open>m = 0\<close>, \<open>e = 0\<close>). ECMA-262 chooses the digits of
  \<^verbatim>\<open>Number::toString\<close> so that they denote the number they came from and no other, so
  distinct finite numbers are distinct decimals. Two things of binary64 are not
  modelled: the rounding of a decimal literal that is no binary64 value (every decimal
  is a number here, also one with more than 17 digits or beyond \<open>1.8e308\<close>), and the
  sign of zero (\<open>-0\<close> and \<open>0\<close> are one value, as they are under \<^verbatim>\<open>===\<close>).
\<close>

function normalise :: "int \<Rightarrow> int \<Rightarrow> int \<times> int" where
  "normalise m e =
     (if m = 0 then (0, 0)
      else if m mod 10 = 0 then normalise (m div 10) (e + 1)
      else (m, e))"
  by pat_completeness auto
termination
  by (relation "measure (\<lambda>(m, e). nat \<bar>m\<bar>)") auto

declare normalise.simps [simp del]

definition canonical :: "int \<times> int \<Rightarrow> bool" where
  "canonical p = (case p of (m, e) \<Rightarrow> if m = 0 then e = 0 else m mod 10 \<noteq> 0)"

lemma canonical_normalise: "canonical (normalise m e)"
  by (induction m e rule: normalise.induct) (simp add: normalise.simps canonical_def)

typedef decimal = "{p. canonical p}"
  by (rule exI [of _ "(0, 0)"]) (simp add: canonical_def)

setup_lifting type_definition_decimal

lift_definition dec :: "int \<Rightarrow> int \<Rightarrow> decimal" is normalise
  by (rule canonical_normalise)

lift_definition mantissa :: "decimal \<Rightarrow> int" is fst .

lift_definition exponent :: "decimal \<Rightarrow> int" is snd .

instantiation decimal :: equal
begin

lift_definition equal_decimal :: "decimal \<Rightarrow> decimal \<Rightarrow> bool" is "(=)" .

instance
  by standard (transfer, simp)

end

datatype number = Fin decimal | NaN | PosInfinity | NegInfinity

fun is_finite :: "number \<Rightarrow> bool" where
  "is_finite (Fin d) = True"
| "is_finite NaN = False"
| "is_finite PosInfinity = False"
| "is_finite NegInfinity = False"

text \<open>The decimal digits of a natural number, most significant first.\<close>

function digits :: "nat \<Rightarrow> jstring" where
  "digits n = (if n < 10 then [48 + n] else digits (n div 10) @ [48 + n mod 10])"
  by pat_completeness auto
termination
  by (relation "measure id") auto

declare digits.simps [simp del]

text \<open>
  \<^verbatim>\<open>Number::toString\<close> (ECMA-262, radix 10) for a positive number with digits \<open>s\<close>
  (\<open>k\<close> of them, the last not zero) and \<open>n = e + k\<close>, so that the number is
  \<open>s * 10 ^ (n - k)\<close>: the steps of the standard, in its order.
\<close>

definition exponent_part :: "int \<Rightarrow> jstring" where
  "exponent_part x = str ''e'' @ (if x < 0 then str ''-'' else str ''+'') @ digits (nat \<bar>x\<bar>)"

definition positive_toString :: "nat \<Rightarrow> int \<Rightarrow> jstring" where
  "positive_toString s e =
     (let ds = digits s; k = int (length ds); n = e + k in
      if k \<le> n \<and> n \<le> 21 then ds @ replicate (nat (n - k)) 48
      else if 0 < n \<and> n \<le> 21 then take (nat n) ds @ str ''.'' @ drop (nat n) ds
      else if - 6 < n \<and> n \<le> 0 then str ''0.'' @ replicate (nat (- n)) 48 @ ds
      else if k = 1 then ds @ exponent_part (n - 1)
      else take 1 ds @ str ''.'' @ drop 1 ds @ exponent_part (n - 1))"

fun toString :: "number \<Rightarrow> jstring" where
  "toString NaN = str ''NaN''"
| "toString PosInfinity = str ''Infinity''"
| "toString NegInfinity = str ''-Infinity''"
| "toString (Fin d) =
     (if mantissa d = 0 then str ''0''
      else if mantissa d < 0 then str ''-'' @ positive_toString (nat (- mantissa d)) (exponent d)
      else positive_toString (nat (mantissa d)) (exponent d))"

text \<open>
  A number in a JSON text (ECMA-404): an optional minus sign, an integer part without a
  leading zero, an optional fraction, an optional exponent. \<open>number_of_lexeme\<close> reads
  a whole lexeme, and answers \<open>None\<close> when it is not a number. The value is exact (see
  above: no rounding to binary64).
\<close>

abbreviation ch :: "char \<Rightarrow> nat" where
  "ch \<equiv> of_char"

definition digits_value :: "jstring \<Rightarrow> nat" where
  "digits_value cs = foldl (\<lambda>a c. 10 * a + (c - 48)) 0 cs"

definition all_digits :: "jstring \<Rightarrow> bool" where
  "all_digits cs = (cs \<noteq> [] \<and> list_all is_digit cs)"

definition exponent_of :: "jstring \<Rightarrow> int option" where
  "exponent_of cs =
     (case cs of
        [] \<Rightarrow> Some 0
      | c # r \<Rightarrow>
          if c = ch CHR ''e'' \<or> c = ch CHR ''E'' then
            (case r of
               [] \<Rightarrow> None
             | s # ds \<Rightarrow>
                 if s = ch CHR ''+'' then
                   (if all_digits ds then Some (int (digits_value ds)) else None)
                 else if s = ch CHR ''-'' then
                   (if all_digits ds then Some (- int (digits_value ds)) else None)
                 else if all_digits r then Some (int (digits_value r))
                 else None)
          else None)"

definition fraction_of :: "jstring \<Rightarrow> (jstring \<times> jstring) option" where
  "fraction_of cs =
     (case cs of
        [] \<Rightarrow> Some ([], [])
      | c # r \<Rightarrow>
          if c = ch CHR ''.'' then
            (if takeWhile is_digit r = [] then None
             else Some (takeWhile is_digit r, dropWhile is_digit r))
          else Some ([], cs))"

definition unsigned_of_lexeme :: "bool \<Rightarrow> jstring \<Rightarrow> number option" where
  "unsigned_of_lexeme neg cs =
     (let ip = takeWhile is_digit cs in
      if ip = [] \<or> (hd ip = 48 \<and> 1 < length ip) then None
      else
        (case fraction_of (dropWhile is_digit cs) of
           None \<Rightarrow> None
         | Some (fp, r) \<Rightarrow>
             (case exponent_of r of
                None \<Rightarrow> None
              | Some x \<Rightarrow>
                  Some (Fin (dec ((if neg then - 1 else 1) * int (digits_value (ip @ fp)))
                                 (x - int (length fp)))))))"

definition number_of_lexeme :: "jstring \<Rightarrow> number option" where
  "number_of_lexeme cs =
     (case cs of
        [] \<Rightarrow> None
      | c # r \<Rightarrow> if c = ch CHR ''-'' then unsigned_of_lexeme True r
                 else unsigned_of_lexeme False cs)"

subsection \<open>Values and \<^verbatim>\<open>JSON.stringify\<close>\<close>

text \<open>
  The values the screen can hold: what \<^verbatim>\<open>JSON.parse\<close> builds, and the object
  \<^verbatim>\<open>handleSetMarker\<close> builds. An object is the list of its own properties in the
  order of their creation.
\<close>

datatype jsval =
    JNull
  | JBool bool
  | JNum number
  | JStr jstring
  | JArr "jsval list"
  | JObj "(jstring \<times> jsval) list"

text \<open>
  \<^verbatim>\<open>QuoteJSONString\<close>: the two-character escapes, \<^verbatim>\<open>\uXXXX\<close> (lower-case
  hexadecimal) for the other control characters and for a surrogate without its partner,
  every other code unit as it is.
\<close>

definition hex_digit :: "nat \<Rightarrow> nat" where
  "hex_digit d = (if d < 10 then 48 + d else 87 + d)"

definition unicode_escape :: "nat \<Rightarrow> jstring" where
  "unicode_escape c =
     [ch CHR 0x5C, ch CHR ''u''] @ [hex_digit (c div 4096 mod 16), hex_digit (c div 256 mod 16),
                    hex_digit (c div 16 mod 16), hex_digit (c mod 16)]"

definition is_high_surrogate :: "nat \<Rightarrow> bool" where
  "is_high_surrogate c = (55296 \<le> c \<and> c \<le> 56319)"

definition is_low_surrogate :: "nat \<Rightarrow> bool" where
  "is_low_surrogate c = (56320 \<le> c \<and> c \<le> 57343)"

definition escape_unit :: "nat \<Rightarrow> jstring" where
  "escape_unit c =
     (if c = 8 then [ch CHR 0x5C, ch CHR ''b'']
      else if c = 9 then [ch CHR 0x5C, ch CHR ''t'']
      else if c = 10 then [ch CHR 0x5C, ch CHR ''n'']
      else if c = 12 then [ch CHR 0x5C, ch CHR ''f'']
      else if c = 13 then [ch CHR 0x5C, ch CHR ''r'']
      else if c = ch CHR 0x22 then [ch CHR 0x5C, ch CHR 0x22]
      else if c = ch CHR 0x5C then [ch CHR 0x5C, ch CHR 0x5C]
      else if c < 32 \<or> is_high_surrogate c \<or> is_low_surrogate c then unicode_escape c
      else [c])"

fun quote_units :: "jstring \<Rightarrow> jstring" where
  "quote_units [] = []"
| "quote_units [c] = escape_unit c"
| "quote_units (c # d # cs) =
     (if is_high_surrogate c \<and> is_low_surrogate d then c # d # quote_units cs
      else escape_unit c @ quote_units (d # cs))"

definition quote :: "jstring \<Rightarrow> jstring" where
  "quote s = [ch CHR 0x22] @ quote_units s @ [ch CHR 0x22]"

fun separated :: "jstring list \<Rightarrow> jstring" where
  "separated [] = []"
| "separated [x] = x"
| "separated (x # y # xs) = x @ str '','' @ separated (y # xs)"

text \<open>
  \<^verbatim>\<open>JSON.stringify(v)\<close>, with no replacer and no indentation. A number that is not
  finite is written \<^verbatim>\<open>null\<close>. The members of an object are written in the order of
  the list. (JavaScript writes the names that are array indices first, in numeric order;
  the screen calls \<^verbatim>\<open>JSON.stringify\<close> only on the object it builds itself, whose
  names are \<^verbatim>\<open>latitude\<close> and \<^verbatim>\<open>longitude\<close>.)
\<close>

fun JSON_stringify :: "jsval \<Rightarrow> jstring" where
  "JSON_stringify JNull = str ''null''"
| "JSON_stringify (JBool b) = (if b then str ''true'' else str ''false'')"
| "JSON_stringify (JNum n) = (if is_finite n then toString n else str ''null'')"
| "JSON_stringify (JStr s) = quote s"
| "JSON_stringify (JArr vs) = str ''['' @ separated (map JSON_stringify vs) @ str '']''"
| "JSON_stringify (JObj ms) =
     str ''{'' @ separated (map (\<lambda>m. quote (fst m) @ str '':'' @ JSON_stringify (snd m)) ms)
       @ str ''}''"

subsection \<open>\<^verbatim>\<open>JSON.parse\<close>\<close>

text \<open>
  \<^verbatim>\<open>JSON.parse\<close> in two passes, each a machine that takes one step per symbol, so
  that both are total by structural recursion: a lexer over the code units of the text,
  then a parser with a stack of open arrays and objects over the tokens. \<open>None\<close> is the
  \<^verbatim>\<open>SyntaxError\<close> that \<^verbatim>\<open>JSON.parse\<close> throws. The grammar is ECMA-404's: any
  value at the top, white space (tab, line feed, carriage return, space) around the
  tokens, no control character inside a string, no leading zero, no trailing comma.
  A number of the text is read exactly, where \<^verbatim>\<open>JSON.parse\<close> rounds it to the nearest
  binary64 value (\<^verbatim>\<open>1e-400\<close> to \<open>0\<close>, \<^verbatim>\<open>1e400\<close> to \<^verbatim>\<open>Infinity\<close>). The two agree
  on every text that \<^verbatim>\<open>JSON.stringify\<close> writes for a number of the program, the only
  numbers the properties of a saved marker read back; on a stored text of another
  origin they agree on whether the text parses and on the shape of the value, and may
  differ in a number that is no binary64 value.
\<close>

datatype token =
    LBrace | RBrace | LBracket | RBracket | Colon | Comma
  | TNull | TTrue | TFalse
  | TNumber number
  | TString jstring

datatype lexmode =
    Between
  | InNumber jstring
  | InWord jstring token
  | InString jstring
  | InEscape jstring
  | InHex jstring "nat list"

text \<open>
  \<open>InNumber acc\<close>, \<open>InString acc\<close>: the code units read so far, last first.
  \<open>InWord cs t\<close>: inside \<^verbatim>\<open>true\<close>, \<^verbatim>\<open>false\<close> or \<^verbatim>\<open>null\<close>, with \<open>cs\<close> still to
  come. \<open>InHex acc ds\<close>: after \<^verbatim>\<open>\u\<close>, with the values \<open>ds\<close> of the hexadecimal
  digits read so far.
\<close>

definition is_space :: "nat \<Rightarrow> bool" where
  "is_space c = (c = 9 \<or> c = 10 \<or> c = 13 \<or> c = 32)"

definition is_number_unit :: "nat \<Rightarrow> bool" where
  "is_number_unit c =
     (is_digit c \<or> c = ch CHR ''+'' \<or> c = ch CHR ''-'' \<or> c = ch CHR ''.''
      \<or> c = ch CHR ''e'' \<or> c = ch CHR ''E'')"

definition hex_value :: "nat \<Rightarrow> nat option" where
  "hex_value c =
     (if is_digit c then Some (c - 48)
      else if ch CHR ''a'' \<le> c \<and> c \<le> ch CHR ''f'' then Some (c - 87)
      else if ch CHR ''A'' \<le> c \<and> c \<le> ch CHR ''F'' then Some (c - 55)
      else None)"

definition begin_token :: "nat \<Rightarrow> (lexmode \<times> token list) option" where
  "begin_token c =
     (if is_space c then Some (Between, [])
      else if c = ch CHR ''{'' then Some (Between, [LBrace])
      else if c = ch CHR ''}'' then Some (Between, [RBrace])
      else if c = ch CHR ''['' then Some (Between, [LBracket])
      else if c = ch CHR '']'' then Some (Between, [RBracket])
      else if c = ch CHR '':'' then Some (Between, [Colon])
      else if c = ch CHR '','' then Some (Between, [Comma])
      else if c = ch CHR 0x22 then Some (InString [], [])
      else if c = ch CHR ''-'' \<or> is_digit c then Some (InNumber [c], [])
      else if c = ch CHR ''t'' then Some (InWord (str ''rue'') TTrue, [])
      else if c = ch CHR ''f'' then Some (InWord (str ''alse'') TFalse, [])
      else if c = ch CHR ''n'' then Some (InWord (str ''ull'') TNull, [])
      else None)"

fun lex_step :: "lexmode \<Rightarrow> nat \<Rightarrow> (lexmode \<times> token list) option" where
  "lex_step Between c = begin_token c"
| "lex_step (InNumber acc) c =
     (if is_number_unit c then Some (InNumber (c # acc), [])
      else
        (case number_of_lexeme (rev acc) of
           None \<Rightarrow> None
         | Some n \<Rightarrow>
             (case begin_token c of
                None \<Rightarrow> None
              | Some (m, ts) \<Rightarrow> Some (m, TNumber n # ts))))"
| "lex_step (InWord [] t) c = None"
| "lex_step (InWord (x # xs) t) c =
     (if c \<noteq> x then None
      else if xs = [] then Some (Between, [t])
      else Some (InWord xs t, []))"
| "lex_step (InString acc) c =
     (if c = ch CHR 0x22 then Some (Between, [TString (rev acc)])
      else if c = ch CHR 0x5C then Some (InEscape acc, [])
      else if c < 32 then None
      else Some (InString (c # acc), []))"
| "lex_step (InEscape acc) c =
     (if c = ch CHR 0x22 \<or> c = ch CHR 0x5C \<or> c = ch CHR ''/'' then Some (InString (c # acc), [])
      else if c = ch CHR ''b'' then Some (InString (8 # acc), [])
      else if c = ch CHR ''f'' then Some (InString (12 # acc), [])
      else if c = ch CHR ''n'' then Some (InString (10 # acc), [])
      else if c = ch CHR ''r'' then Some (InString (13 # acc), [])
      else if c = ch CHR ''t'' then Some (InString (9 # acc), [])
      else if c = ch CHR ''u'' then Some (InHex acc [], [])
      else None)"
| "lex_step (InHex acc ds) c =
     (case hex_value c of
        None \<Rightarrow> None
      | Some h \<Rightarrow>
          if length ds = 3 then Some (InString (foldl (\<lambda>a d. 16 * a + d) 0 (ds @ [h]) # acc), [])
          else Some (InHex acc (ds @ [h]), []))"

fun lex_end :: "lexmode \<Rightarrow> token list option" where
  "lex_end Between = Some []"
| "lex_end (InNumber acc) =
     (case number_of_lexeme (rev acc) of None \<Rightarrow> None | Some n \<Rightarrow> Some [TNumber n])"
| "lex_end (InWord cs t) = None"
| "lex_end (InString acc) = None"
| "lex_end (InEscape acc) = None"
| "lex_end (InHex acc ds) = None"

fun lex :: "lexmode \<Rightarrow> jstring \<Rightarrow> token list option" where
  "lex m [] = lex_end m"
| "lex m (c # cs) =
     (case lex_step m c of
        None \<Rightarrow> None
      | Some (m', ts) \<Rightarrow>
          (case lex m' cs of None \<Rightarrow> None | Some ts' \<Rightarrow> Some (ts @ ts')))"

text \<open>
  The parser. A frame is an open array with its elements so far (last first), an open
  object with its members so far, or an open object whose next member's name has been
  read. \<open>put\<close> is \<^verbatim>\<open>CreateDataProperty\<close>: a repeated name keeps its place and takes
  the later value.
\<close>

datatype frame =
    Arr "jsval list"
  | Obj "(jstring \<times> jsval) list"
  | ObjKey "(jstring \<times> jsval) list" jstring

datatype expect =
    AValue
  | AValueOrEnd
  | AKeyOrEnd
  | AKey
  | AColon
  | ASeparator
  | Finished jsval

fun put :: "jstring \<Rightarrow> jsval \<Rightarrow> (jstring \<times> jsval) list \<Rightarrow> (jstring \<times> jsval) list" where
  "put k v [] = [(k, v)]"
| "put k v (m # ms) = (if fst m = k then (k, v) # ms else m # put k v ms)"

fun close_value :: "jsval \<Rightarrow> frame list \<Rightarrow> (expect \<times> frame list) option" where
  "close_value v [] = Some (Finished v, [])"
| "close_value v (Arr es # st) = Some (ASeparator, Arr (v # es) # st)"
| "close_value v (ObjKey ms k # st) = Some (ASeparator, Obj (put k v ms) # st)"
| "close_value v (Obj ms # st) = None"

fun begin_value :: "token \<Rightarrow> frame list \<Rightarrow> (expect \<times> frame list) option" where
  "begin_value TNull st = close_value JNull st"
| "begin_value TTrue st = close_value (JBool True) st"
| "begin_value TFalse st = close_value (JBool False) st"
| "begin_value (TNumber n) st = close_value (JNum n) st"
| "begin_value (TString s) st = close_value (JStr s) st"
| "begin_value LBracket st = Some (AValueOrEnd, Arr [] # st)"
| "begin_value LBrace st = Some (AKeyOrEnd, Obj [] # st)"
| "begin_value t st = None"

fun parse_step :: "expect \<Rightarrow> frame list \<Rightarrow> token \<Rightarrow> (expect \<times> frame list) option" where
  "parse_step AValue st t = begin_value t st"
| "parse_step AValueOrEnd (Arr es # st) RBracket = close_value (JArr (rev es)) st"
| "parse_step AValueOrEnd st t = begin_value t st"
| "parse_step AKeyOrEnd (Obj ms # st) RBrace = close_value (JObj ms) st"
| "parse_step AKeyOrEnd (Obj ms # st) (TString k) = Some (AColon, ObjKey ms k # st)"
| "parse_step AKey (Obj ms # st) (TString k) = Some (AColon, ObjKey ms k # st)"
| "parse_step AColon st Colon = Some (AValue, st)"
| "parse_step ASeparator (Arr es # st) Comma = Some (AValue, Arr es # st)"
| "parse_step ASeparator (Arr es # st) RBracket = close_value (JArr (rev es)) st"
| "parse_step ASeparator (Obj ms # st) Comma = Some (AKey, Obj ms # st)"
| "parse_step ASeparator (Obj ms # st) RBrace = close_value (JObj ms) st"
| "parse_step e st t = None"

fun parse_tokens :: "expect \<Rightarrow> frame list \<Rightarrow> token list \<Rightarrow> jsval option" where
  "parse_tokens e st [] = (case e of Finished v \<Rightarrow> Some v | _ \<Rightarrow> None)"
| "parse_tokens e st (t # ts) =
     (case parse_step e st t of
        None \<Rightarrow> None
      | Some (e', st') \<Rightarrow> parse_tokens e' st' ts)"

definition JSON_parse :: "jstring \<Rightarrow> jsval option" where
  "JSON_parse text =
     (case lex Between text of None \<Rightarrow> None | Some ts \<Rightarrow> parse_tokens AValue [] ts)"

text \<open>
  The token that the lexer makes of a number as \<^verbatim>\<open>JSON.stringify\<close> writes it, and
  the value it then parses to: the number when it is finite, \<^verbatim>\<open>null\<close> when it is not.
\<close>

definition token_of :: "number \<Rightarrow> token" where
  "token_of n = (if is_finite n then TNumber n else TNull)"

definition as_json :: "number \<Rightarrow> jsval" where
  "as_json n = (if is_finite n then JNum n else JNull)"

subsection \<open>The screen\<close>

text \<open>
  \<open>marker\<close> and \<open>loading\<close> are the component's two \<^verbatim>\<open>useState\<close> cells (the
  marker is \<open>JNull\<close> for \<^verbatim>\<open>null\<close>), \<open>storage\<close> is AsyncStorage, \<open>viewport\<close> is
  the region the mounted \<^verbatim>\<open>MapView\<close> shows (\<open>None\<close> while the loading screen is
  shown instead of the map, when \<^verbatim>\<open>mapRef.current\<close> is \<^verbatim>\<open>null\<close>), and \<open>calls\<close>
  lists the platform calls made so far, oldest first.
\<close>

record region =
  latitude :: jsval
  longitude :: jsval
  latitudeDelta :: jsval
  longitudeDelta :: jsval

datatype call =
    GetItem jstring
  | SetItem jstring jstring
  | RemoveItem jstring
  | RequestForegroundPermissions
  | GetCurrentPosition
  | Alert jstring jstring
  | ConsoleLog jstring
  | AnimateToRegion region nat

record screen =
  marker :: jsval
  loading :: bool
  storage :: "jstring \<rightharpoonup> jstring"
  viewport :: "region option"
  calls :: "call list"

text \<open>How an \<^verbatim>\<open>async\<close> handler ends: its promise resolves, or it rejects (an await threw).\<close>

datatype outcome = Resolved | Rejected

definition called :: "call \<Rightarrow> screen \<Rightarrow> screen" where
  "called c s = s\<lparr>calls := calls s @ [c]\<rparr>"

definition decimal_number :: "int \<Rightarrow> int \<Rightarrow> jsval" where
  "decimal_number m e = JNum (Fin (dec m e))"

text \<open>The state of the component when it is created, over a given AsyncStorage.\<close>

definition created :: "(jstring \<rightharpoonup> jstring) \<Rightarrow> screen" where
  "created st = \<lparr>marker = JNull, loading = True, storage = st, viewport = None, calls = []\<rparr>"

text \<open>
  \<^verbatim>\<open>loadMarker\<close>, the effect run once when the component mounts. \<open>readable\<close> says
  whether the promise of \<^verbatim>\<open>AsyncStorage.getItem\<close> resolves; a rejection lands in the
  \<^verbatim>\<open>catch\<close>, as a \<^verbatim>\<open>SyntaxError\<close> of \<^verbatim>\<open>JSON.parse\<close> does. \<^verbatim>\<open>if (json)\<close> is
  false for \<^verbatim>\<open>null\<close> (no item) and for the empty string. \<open>ConsoleLog\<close> keeps the
  message of \<^verbatim>\<open>console.log\<close> and leaves out the error object printed after it.
\<close>

definition load_error :: jstring where
  "load_error = str ''Error al cargar marcador:''"

definition loadMarker :: "bool \<Rightarrow> screen \<Rightarrow> screen" where
  "loadMarker readable s =
     (let s1 = called (GetItem (str ''marker'')) s;
          s2 =
            (if \<not> readable then called (ConsoleLog load_error) s1
             else
               (case storage s1 (str ''marker'') of
                  None \<Rightarrow> s1
                | Some json \<Rightarrow>
                    if json = [] then s1
                    else
                      (case JSON_parse json of
                         None \<Rightarrow> called (ConsoleLog load_error) s1
                       | Some parsed \<Rightarrow> s1\<lparr>marker := parsed\<rparr>)))
      in s2\<lparr>loading := False\<rparr>)"

text \<open>
  \<^verbatim>\<open>marker?.latitude\<close>: \<^verbatim>\<open>undefined\<close> (\<open>None\<close>) on \<^verbatim>\<open>null\<close>, on a value that is
  not an object and on an object without the property; the value of the property
  otherwise. (The two names the screen reads, \<^verbatim>\<open>latitude\<close> and \<^verbatim>\<open>longitude\<close>, are
  properties of no built-in prototype.) Then \<^verbatim>\<open>x || d\<close>: \<open>x\<close> when it is truthy,
  \<open>d\<close> otherwise.
\<close>

fun property :: "jsval \<Rightarrow> jstring \<Rightarrow> jsval option" where
  "property (JObj ms) k = map_of ms k"
| "property v k = None"

fun truthy :: "jsval \<Rightarrow> bool" where
  "truthy JNull = False"
| "truthy (JBool b) = b"
| "truthy (JNum (Fin d)) = (mantissa d \<noteq> 0)"
| "truthy (JNum NaN) = False"
| "truthy (JNum PosInfinity) = True"
| "truthy (JNum NegInfinity) = True"
| "truthy (JStr s) = (s \<noteq> [])"
| "truthy (JArr vs) = True"
| "truthy (JObj ms) = True"

definition or_else :: "jsval option \<Rightarrow> jsval \<Rightarrow> jsval" where
  "or_else x d = (case x of None \<Rightarrow> d | Some v \<Rightarrow> if truthy v then v else d)"

definition initialRegion :: "screen \<Rightarrow> region" where
  "initialRegion s =
     \<lparr>latitude = or_else (property (marker s) (str ''latitude'')) (decimal_number 404168 (- 4)),
      longitude = or_else (property (marker s) (str ''longitude'')) (decimal_number (- 37038) (- 4)),
      latitudeDelta = decimal_number 1 (- 2),
      longitudeDelta = decimal_number 1 (- 2)\<rparr>"

text \<open>
  One render of the component: the loading screen while \<open>loading\<close>, the map otherwise.
  A \<^verbatim>\<open>MapView\<close> takes \<^verbatim>\<open>initialRegion\<close> when it mounts and ignores it afterwards.
\<close>

definition render :: "screen \<Rightarrow> screen" where
  "render s =
     (if loading s then s\<lparr>viewport := None\<rparr>
      else (case viewport s of None \<Rightarrow> s\<lparr>viewport := Some (initialRegion s)\<rparr> | Some r \<Rightarrow> s))"

text \<open>
  Screen initialisation: the component is created and rendered, the effect loads the
  marker, and the state it set is rendered.
\<close>

definition initialise :: "bool \<Rightarrow> (jstring \<rightharpoonup> jstring) \<Rightarrow> screen" where
  "initialise readable st = render (loadMarker readable (render (created st)))"

text \<open>
  \<^verbatim>\<open>handleSetMarker\<close>. \<open>status\<close> is what \<^verbatim>\<open>requestForegroundPermissionsAsync\<close>
  answers, \<open>fix\<close> the latitude and longitude that \<^verbatim>\<open>getCurrentPositionAsync\<close>
  answers (\<open>None\<close>: its promise rejects), \<open>writable\<close> whether the promise of
  \<^verbatim>\<open>AsyncStorage.setItem\<close> resolves.
\<close>

definition permission_alert :: call where
  "permission_alert =
     Alert (str ''Permisos denegados'')
           (str ''Se necesita acceso a la ubicaci'' @ [243] @ str ''n.'')"

definition coordinate :: "number \<Rightarrow> number \<Rightarrow> jsval" where
  "coordinate lat lon = JObj [(str ''latitude'', JNum lat), (str ''longitude'', JNum lon)]"

definition handleSetMarker ::
  "jstring \<Rightarrow> (number \<times> number) option \<Rightarrow> bool \<Rightarrow> screen \<Rightarrow> screen \<times> outcome" where
  "handleSetMarker status fix writable s =
     (let s1 = called RequestForegroundPermissions s in
      if status \<noteq> str ''granted'' then (called permission_alert s1, Resolved)
      else
        (let s2 = called GetCurrentPosition s1 in
         case fix of
           None \<Rightarrow> (s2, Rejected)
         | Some (lat, lon) \<Rightarrow>
             (let coords = coordinate lat lon;
                  s3 = s2\<lparr>marker := coords\<rparr>;
                  s4 = called (SetItem (str ''marker'') (JSON_stringify coords)) s3
              in if writable
                 then (s4\<lparr>storage := (storage s4)(str ''marker'' \<mapsto> JSON_stringify coords)\<rparr>, Resolved)
                 else (s4, Rejected))))"

text \<open>
  \<^verbatim>\<open>handleRemoveMarker\<close> (the variant with the side menu only). \<open>writable\<close>: whether
  the promise of \<^verbatim>\<open>AsyncStorage.removeItem\<close> resolves.
\<close>

definition handleRemoveMarker :: "bool \<Rightarrow> screen \<Rightarrow> screen \<times> outcome" where
  "handleRemoveMarker writable s =
     (let s1 = s\<lparr>marker := JNull\<rparr>;
          s2 = called (RemoveItem (str ''marker'')) s1
      in if writable then (s2\<lparr>storage := (storage s2)(str ''marker'' := None)\<rparr>, Resolved)
         else (s2, Rejected))"

text \<open>
  \<^verbatim>\<open>centerMapOnUser\<close> (the variant with the side menu only).
  \<^verbatim>\<open>mapRef.current?.animateToRegion(coords, 1000)\<close> does nothing while no map is
  mounted.
\<close>

definition centerMapOnUser ::
  "jstring \<Rightarrow> (number \<times> number) option \<Rightarrow> screen \<Rightarrow> screen \<times> outcome" where
  "centerMapOnUser status fix s =
     (let s1 = called RequestForegroundPermissions s in
      if status \<noteq> str ''granted'' then (called permission_alert s1, Resolved)
      else
        (let s2 = called GetCurrentPosition s1 in
         case fix of
           None \<Rightarrow> (s2, Rejected)
         | Some (lat, lon) \<Rightarrow>
             (let coords = \<lparr>latitude = JNum lat, longitude = JNum lon,
                             latitudeDelta = decimal_number 1 (- 2),
                             longitudeDelta = decimal_number 1 (- 2)\<rparr>
              in case viewport s2 of
                   None \<Rightarrow> (s2, Resolved)
                 | Some r \<Rightarrow>
                     ((called (AnimateToRegion coords 1000) s2)\<lparr>viewport := Some coords\<rparr>,
                      Resolved))))"

text \<open>
  Two shorthands for the statements below. \<open>saved lat lon s\<close> is the state after
  \<^verbatim>\<open>handleSetMarker\<close> ran from \<open>s\<close> with the permission granted, a position fix at
  \<open>(lat, lon)\<close> and a \<^verbatim>\<open>setItem\<close> that resolved. \<open>restarted s\<close> is the screen
  initialised anew on the storage of \<open>s\<close> (with a \<^verbatim>\<open>getItem\<close> that resolves): its
  marker is the persisted marker, decoded by the screen's own \<open>loadMarker\<close>.
\<close>

abbreviation saved :: "number \<Rightarrow> number \<Rightarrow> screen \<Rightarrow> screen" where
  "saved lat lon s \<equiv> fst (handleSetMarker (str ''granted'') (Some (lat, lon)) True s)"

abbreviation restarted :: "screen \<Rightarrow> screen" where
  "restarted s \<equiv> initialise True (storage s)"

text \<open>The calls a handler added, given the state before and the state after.\<close>

definition new_calls :: "screen \<Rightarrow> screen \<Rightarrow> call list" where
  "new_calls s s' = drop (length (calls s)) (calls s')"

text \<open>
  Two screens for the examples: one started on an empty storage, and one in use, with
  the marker (1, 2) saved and shown and the map mounted on it.
\<close>

definition fresh :: screen where
  "fresh = initialise True Map.empty"

definition parked :: screen where
  "parked =
     \<lparr>marker = coordinate (Fin (dec 1 0)) (Fin (dec 2 0)),
      loading = False,
      storage = [str ''marker'' \<mapsto> str ''{\"latitude\":1,\"longitude\":2}''],
      viewport = Some \<lparr>latitude = decimal_number 1 0, longitude = decimal_number 2 0,
                        latitudeDelta = decimal_number 1 (- 2),
                        longitudeDelta = decimal_number 1 (- 2)\<rparr>,
      calls = [GetItem (str ''marker'')]\<rparr>"

section \<open>Properties\<close>

subsection \<open>Evaluation\<close>

text \<open>
  The facts that let the simplifier run the model on a concrete input.
\<close>

lemma mantissa_dec: "mantissa (dec m e) = fst (normalise m e)"
  by (simp add: mantissa.rep_eq dec.rep_eq)

lemma exponent_dec: "exponent (dec m e) = snd (normalise m e)"
  by (simp add: exponent.rep_eq dec.rep_eq)

lemma dec_eq_iff: "dec m e = dec m' e' \<longleftrightarrow> normalise m e = normalise m' e'"
  by (simp add: Rep_decimal_inject [symmetric] dec.rep_eq)

lemma replicate_numeral: "replicate (numeral v) x = x # replicate (numeral v - 1) x"
  by (simp add: numeral_eq_Suc)

lemmas number_eval =
  mantissa_dec exponent_dec dec_eq_iff normalise.simps digits.simps str_def
  positive_toString_def exponent_part_def decimal_number_def replicate_numeral

lemmas parse_eval =
  JSON_parse_def begin_token_def is_space_def is_digit_def is_number_unit_def hex_value_def
  number_of_lexeme_def unsigned_of_lexeme_def fraction_of_def exponent_of_def
  digits_value_def all_digits_def

lemmas stringify_eval =
  coordinate_def quote_def escape_unit_def is_high_surrogate_def is_low_surrogate_def

subsection \<open>Printing a number and reading it back\<close>

lemma digits_nonempty: "digits n \<noteq> []"
  by (induction n rule: digits.induct) (subst digits.simps, simp)

lemma digits_all: "list_all is_digit (digits n)"
proof (induction n rule: digits.induct)
  case (1 n)
  show ?case
  proof (cases "n < 10")
    case True
    then show ?thesis by (subst digits.simps) (simp add: is_digit_def)
  next
    case False
    have "n mod 10 < 10" by simp
    then have "is_digit (48 + n mod 10)" unfolding is_digit_def by linarith
    with False 1 show ?thesis by (subst digits.simps) simp
  qed
qed

lemma digits_value_snoc: "digits_value (xs @ [c]) = 10 * digits_value xs + (c - 48)"
  by (simp add: digits_value_def)

lemma digits_value_append:
  "digits_value (xs @ ys) = digits_value xs * 10 ^ length ys + digits_value ys"
proof (induction ys rule: rev_induct)
  case Nil
  then show ?case by (simp add: digits_value_def)
next
  case (snoc y ys)
  have "digits_value (xs @ ys @ [y]) = 10 * digits_value (xs @ ys) + (y - 48)"
    using digits_value_snoc [of "xs @ ys" y] by simp
  with snoc show ?case by (simp add: digits_value_snoc algebra_simps)
qed

lemma digits_value_digits: "digits_value (digits n) = n"
proof (induction n rule: digits.induct)
  case (1 n)
  show ?case
  proof (cases "n < 10")
    case True
    then show ?thesis by (subst digits.simps) (simp add: digits_value_def)
  next
    case False
    with 1 show ?thesis by (subst digits.simps) (simp add: digits_value_snoc)
  qed
qed

lemma hd_digits: "0 < n \<Longrightarrow> hd (digits n) \<noteq> 48"
proof (induction n rule: digits.induct)
  case (1 n)
  show ?case
  proof (cases "n < 10")
    case True
    with 1 show ?thesis by (subst digits.simps) simp
  next
    case False
    then have "0 < n div 10" by simp
    with False 1 show ?thesis by (subst digits.simps) (simp add: digits_nonempty)
  qed
qed

lemma digits_value_zeros: "digits_value (replicate j 48 @ xs) = digits_value xs"
  by (induction j) (simp_all add: digits_value_def)

lemma takeWhile_digits:
  "list_all is_digit xs \<Longrightarrow> r = [] \<or> \<not> is_digit (hd r) \<Longrightarrow> takeWhile is_digit (xs @ r) = xs"
  by (induction xs) (auto simp add: takeWhile_eq_Nil_iff)

lemma dropWhile_digits:
  "list_all is_digit xs \<Longrightarrow> r = [] \<or> \<not> is_digit (hd r) \<Longrightarrow> dropWhile is_digit (xs @ r) = r"
  by (induction xs) (auto simp add: dropWhile_eq_self_iff)

lemma normalise_canonical: "canonical (m, e) \<Longrightarrow> normalise m e = (m, e)"
  by (subst normalise.simps) (simp add: canonical_def split: if_splits)

lemma normalise_times_ten: "m \<noteq> 0 \<Longrightarrow> normalise (m * 10) e = normalise m (e + 1)"
  by (subst normalise.simps) simp

lemma normalise_times_power: "m \<noteq> 0 \<Longrightarrow> normalise (m * 10 ^ j) e = normalise m (e + int j)"
proof (induction j arbitrary: e)
  case 0
  then show ?case by simp
next
  case (Suc j)
  have "m * 10 ^ Suc j = (m * 10 ^ j) * 10"
    by simp
  then have "normalise (m * 10 ^ Suc j) e = normalise ((m * 10 ^ j) * 10) e"
    by (simp only:)
  also have "\<dots> = normalise (m * 10 ^ j) (e + 1)"
    using Suc.prems by (simp add: normalise_times_ten)
  also have "\<dots> = normalise m (e + 1 + int j)"
    using Suc by simp
  also have "e + 1 + int j = e + int (Suc j)"
    by simp
  finally show ?case .
qed

lemma dec_canonical: "dec (mantissa d) (exponent d) = d"
proof -
  have "canonical (Rep_decimal d)"
    using Rep_decimal [of d] by simp
  then have "normalise (fst (Rep_decimal d)) (snd (Rep_decimal d)) = Rep_decimal d"
    using normalise_canonical [of "fst (Rep_decimal d)" "snd (Rep_decimal d)"] by simp
  then show ?thesis
    by (simp add: Rep_decimal_inject [symmetric] dec.rep_eq mantissa.rep_eq exponent.rep_eq)
qed

lemma exponent_zero: "mantissa d = 0 \<Longrightarrow> exponent d = 0"
  using Rep_decimal [of d]
  by (simp add: mantissa.rep_eq exponent.rep_eq canonical_def split: prod.splits)


lemma exponent_of_exponent_part: "exponent_of (exponent_part x) = Some x"
proof -
  have "all_digits (digits n)" for n
    by (simp add: all_digits_def digits_nonempty digits_all)
  then show ?thesis
    by (simp add: exponent_of_def exponent_part_def str_def digits_value_digits)
qed

lemma exponent_of_empty: "exponent_of [] = Some 0"
  by (simp add: exponent_of_def)

text \<open>
  A lexeme made of an integer part, a fraction (with its point, when it has digits) and
  an exponent part is read as the digits of both, scaled by the exponent less the
  length of the fraction.
\<close>

lemma unsigned_of_parts:
  assumes ip: "ip \<noteq> []" "list_all is_digit ip" "hd ip = 48 \<longrightarrow> length ip = 1"
    and fp: "list_all is_digit fp"
    and ex: "exponent_of ex = Some x" "ex = [] \<or> hd ex = 101"
  shows "unsigned_of_lexeme neg (ip @ (if fp = [] then [] else 46 # fp) @ ex) =
    Some (Fin (dec ((if neg then - 1 else 1) * int (digits_value (ip @ fp))) (x - int (length fp))))"
proof -
  let ?rest = "(if fp = [] then [] else 46 # fp) @ ex"
  have stop: "?rest = [] \<or> \<not> is_digit (hd ?rest)"
    using ex(2) by (auto simp add: is_digit_def)
  have take_ip: "takeWhile is_digit (ip @ ?rest) = ip"
    using ip(2) stop by (rule takeWhile_digits)
  have drop_ip: "dropWhile is_digit (ip @ ?rest) = ?rest"
    using ip(2) stop by (rule dropWhile_digits)
  have stop_ex: "ex = [] \<or> \<not> is_digit (hd ex)"
    using ex(2) by (auto simp add: is_digit_def)
  have frac: "fraction_of ?rest = Some (fp, ex)"
  proof (cases "fp = []")
    case True
    show ?thesis
    proof (cases ex)
      case Nil
      with True show ?thesis by (simp add: fraction_of_def)
    next
      case (Cons c r)
      with ex(2) have "c = 101" by simp
      with True Cons show ?thesis by (simp add: fraction_of_def)
    qed
  next
    case False
    have "takeWhile is_digit (fp @ ex) = fp" "dropWhile is_digit (fp @ ex) = ex"
      using fp stop_ex by (rule takeWhile_digits, rule dropWhile_digits)
    with False show ?thesis by (simp add: fraction_of_def)
  qed
  from ip(1,3) have lead: "\<not> (hd ip = 48 \<and> 1 < length ip)"
    by auto
  show ?thesis
    unfolding unsigned_of_lexeme_def take_ip drop_ip
    using ip(1) lead frac ex(1) by (simp del: append_assoc)
qed


lemma zeros_digits: "list_all is_digit (replicate j 48)"
  by (simp add: list_all_iff is_digit_def)

lemma hd_exponent_part: "hd (exponent_part x) = 101" "exponent_part x \<noteq> []"
  by (simp_all add: exponent_part_def str_def)

lemma unsigned_of_positive_toString:
  assumes "0 < s"
  shows "unsigned_of_lexeme neg (positive_toString s e) =
    Some (Fin (dec ((if neg then - 1 else 1) * int s) e))"
proof -
  define ds where "ds = digits s"
  define k where "k = int (length ds)"
  define n where "n = e + k"
  define sg :: int where "sg = (if neg then - 1 else 1)"
  have ds: "ds \<noteq> []" "list_all is_digit ds" "hd ds \<noteq> 48" "digits_value ds = s"
    using assms by (simp_all add: ds_def digits_nonempty digits_all hd_digits digits_value_digits)
  have k: "0 < k"
    using ds(1) by (simp add: k_def)
  have e: "e = n - k"
    by (simp add: n_def)
  have sg: "sg * int s \<noteq> 0"
    using assms by (simp add: sg_def)
  have shape: "positive_toString s e =
     (if k \<le> n \<and> n \<le> 21 then ds @ replicate (nat (n - k)) 48
      else if 0 < n \<and> n \<le> 21 then take (nat n) ds @ str ''.'' @ drop (nat n) ds
      else if - 6 < n \<and> n \<le> 0 then str ''0.'' @ replicate (nat (- n)) 48 @ ds
      else if k = 1 then ds @ exponent_part (n - 1)
      else take 1 ds @ str ''.'' @ drop 1 ds @ exponent_part (n - 1))"
    by (simp add: positive_toString_def Let_def ds_def k_def n_def)
  consider (whole) "k \<le> n" "n \<le> 21"
    | (point) "n < k" "0 < n" "n \<le> 21"
    | (small) "n < k" "- 6 < n" "n \<le> 0"
    | (single) "\<not> (k \<le> n \<and> n \<le> 21)" "\<not> (0 < n \<and> n \<le> 21)" "\<not> (- 6 < n \<and> n \<le> 0)" "k = 1"
    | (long) "\<not> (k \<le> n \<and> n \<le> 21)" "\<not> (0 < n \<and> n \<le> 21)" "\<not> (- 6 < n \<and> n \<le> 0)" "k \<noteq> 1"
    using k by linarith
  then show ?thesis
  proof cases
    case whole
    let ?ip = "ds @ replicate (nat (n - k)) 48"
    have pt: "positive_toString s e = ?ip"
      using whole by (simp add: shape)
    have "list_all is_digit ?ip" "hd ?ip \<noteq> 48"
      using ds by (simp_all add: zeros_digits)
    then have "unsigned_of_lexeme neg ?ip = Some (Fin (dec (sg * int (digits_value ?ip)) 0))"
      using unsigned_of_parts [where ip = ?ip and fp = "[]" and ex = "[]" and x = 0 and neg = neg]
        ds(1)
      by (simp add: exponent_of_empty sg_def)
    moreover have "digits_value ?ip = s * 10 ^ nat (n - k)"
      using digits_value_append [of ds "replicate (nat (n - k)) 48"]
        digits_value_zeros [of "nat (n - k)" "[]"] ds(4)
      by (simp add: digits_value_def)
    moreover have "dec (sg * int (s * 10 ^ nat (n - k))) 0 = dec (sg * int s) e"
    proof -
      have "normalise ((sg * int s) * 10 ^ nat (n - k)) 0 = normalise (sg * int s) (0 + int (nat (n - k)))"
        using sg by (rule normalise_times_power)
      with whole e show ?thesis
        by (simp add: dec_eq_iff mult.assoc)
    qed
    ultimately show ?thesis
      by (simp only: pt sg_def)
  next
    case point
    let ?ip = "take (nat n) ds" and ?fp = "drop (nat n) ds"
    have pt: "positive_toString s e = ?ip @ 46 # ?fp"
      using point by (simp add: shape str_def)
    have fp: "?fp \<noteq> []"
      using point by (simp add: k_def)
    have "?ip \<noteq> []" "list_all is_digit ?ip" "hd ?ip \<noteq> 48" "list_all is_digit ?fp"
      using point ds by (auto simp add: list_all_iff dest: in_set_takeD in_set_dropD)
    then have "unsigned_of_lexeme neg (?ip @ 46 # ?fp) =
        Some (Fin (dec (sg * int (digits_value (?ip @ ?fp))) (- int (length ?fp))))"
      using unsigned_of_parts [where ip = ?ip and fp = ?fp and ex = "[]" and x = 0 and neg = neg] fp
      by (simp add: exponent_of_empty sg_def)
    moreover have "- int (length ?fp) = e"
      using point by (simp add: e k_def)
    moreover have "digits_value (?ip @ ?fp) = s"
      using ds(4) by simp
    ultimately show ?thesis
      by (simp only: pt sg_def)
  next
    case small
    let ?fp = "replicate (nat (- n)) 48 @ ds"
    have pt: "positive_toString s e = 48 # 46 # ?fp"
      using small by (simp add: shape str_def)
    have "list_all is_digit ?fp" "?fp \<noteq> []"
      using ds by (simp_all add: zeros_digits)
    then have "unsigned_of_lexeme neg (48 # 46 # ?fp) =
        Some (Fin (dec (sg * int (digits_value (48 # ?fp))) (- int (length ?fp))))"
      using unsigned_of_parts [where ip = "[48]" and fp = ?fp and ex = "[]" and x = 0 and neg = neg]
        ds(1)
      by (simp add: exponent_of_empty sg_def is_digit_def)
    moreover have "digits_value (48 # ?fp) = s"
      using digits_value_zeros [of "Suc (nat (- n))" ds] ds(4) by simp
    moreover have "- int (length ?fp) = e"
      using small by (simp add: e k_def)
    ultimately show ?thesis
      by (simp only: pt sg_def)
  next
    case single
    have pt: "positive_toString s e = ds @ exponent_part (n - 1)"
      using single by (auto simp add: shape)
    have "unsigned_of_lexeme neg (ds @ exponent_part (n - 1)) =
        Some (Fin (dec (sg * int (digits_value ds)) (n - 1)))"
      using unsigned_of_parts
          [where ip = ds and fp = "[]" and ex = "exponent_part (n - 1)" and x = "n - 1" and neg = neg]
        ds
      by (simp add: exponent_of_exponent_part hd_exponent_part sg_def)
    moreover have "n - 1 = e"
      using single by (simp add: e)
    ultimately show ?thesis
      by (simp only: pt sg_def ds(4))
  next
    case long
    let ?ip = "take 1 ds" and ?fp = "drop 1 ds"
    have pt: "positive_toString s e = ?ip @ 46 # ?fp @ exponent_part (n - 1)"
      using long by (auto simp add: shape str_def)
    have "1 < length ds"
      using long(4) ds(1) by (cases ds) (simp_all add: k_def)
    then have fp: "?fp \<noteq> []"
      by simp
    have "?ip \<noteq> []" "list_all is_digit ?ip" "hd ?ip \<noteq> 48" "list_all is_digit ?fp"
      using ds by (auto simp add: list_all_iff dest: in_set_takeD in_set_dropD)
    then have "unsigned_of_lexeme neg (?ip @ 46 # ?fp @ exponent_part (n - 1)) =
        Some (Fin (dec (sg * int (digits_value (?ip @ ?fp))) (n - 1 - int (length ?fp))))"
      using unsigned_of_parts
          [where ip = ?ip and fp = ?fp and ex = "exponent_part (n - 1)" and x = "n - 1" and neg = neg]
        fp
      by (simp add: exponent_of_exponent_part hd_exponent_part sg_def)
    moreover have "n - 1 - int (length ?fp) = e"
      using \<open>1 < length ds\<close> by (simp add: e k_def)
    moreover have "digits_value (?ip @ ?fp) = s"
      using ds(4) by simp
    ultimately show ?thesis
      by (simp only: pt sg_def)
  qed
qed


lemma hd_positive_toString:
  "0 < s \<Longrightarrow> positive_toString s e \<noteq> [] \<and> is_digit (hd (positive_toString s e))"
proof -
  assume "0 < s"
  have "digits s \<noteq> []" "is_digit (hd (digits s))"
    using digits_all [of s] digits_nonempty [of s] by (cases "digits s"; simp)+
  then show ?thesis
    by (auto simp add: positive_toString_def Let_def str_def is_digit_def hd_append)
qed

lemma number_units_digits: "list_all is_digit xs \<Longrightarrow> list_all is_number_unit xs"
  by (simp add: list_all_iff is_number_unit_def)

lemma number_units_exponent_part: "list_all is_number_unit (exponent_part x)"
  using number_units_digits [OF digits_all, of "nat \<bar>x\<bar>"]
  by (simp add: exponent_part_def str_def is_number_unit_def)

lemma number_units_positive_toString: "list_all is_number_unit (positive_toString s e)"
proof -
  have ds: "list_all is_number_unit (digits s)"
    by (rule number_units_digits [OF digits_all])
  then have "list_all is_number_unit (take j (digits s))" "list_all is_number_unit (drop j (digits s))"
    for j
    by (auto simp add: list_all_iff dest: in_set_takeD in_set_dropD)
  moreover have "list_all is_number_unit (replicate j 48)" for j
    by (rule number_units_digits [OF zeros_digits])
  moreover have "is_number_unit 46" "is_number_unit 48"
    by (simp_all add: is_number_unit_def is_digit_def)
  ultimately show ?thesis
    using ds number_units_exponent_part
    by (simp add: positive_toString_def Let_def str_def)
qed

text \<open>
  What \<^verbatim>\<open>Number::toString\<close> prints for a finite number, \<^verbatim>\<open>JSON.parse\<close> reads as that
  number.
\<close>

lemma number_of_toString: "number_of_lexeme (toString (Fin d)) = Some (Fin d)"
proof -
  consider (zero) "mantissa d = 0" | (negative) "mantissa d < 0" | (positive) "0 < mantissa d"
    by linarith
  then show ?thesis
  proof cases
    case zero
    have "unsigned_of_lexeme False [48] = Some (Fin (dec 0 0))"
      using unsigned_of_parts [where ip = "[48]" and fp = "[]" and ex = "[]" and x = 0 and neg = False]
      by (simp add: exponent_of_empty is_digit_def digits_value_def)
    moreover have "dec 0 0 = d"
      using dec_canonical [of d] zero exponent_zero [of d] by simp
    ultimately show ?thesis
      using zero by (simp add: number_of_lexeme_def str_def)
  next
    case negative
    then have "0 < nat (- mantissa d)"
      by simp
    from unsigned_of_positive_toString [OF this, of True "exponent d"] negative
    have "unsigned_of_lexeme True (positive_toString (nat (- mantissa d)) (exponent d)) = Some (Fin d)"
      by (simp add: dec_canonical)
    with negative show ?thesis
      by (simp add: number_of_lexeme_def str_def)
  next
    case positive
    then have pos: "0 < nat (mantissa d)"
      by simp
    from unsigned_of_positive_toString [OF pos, of False "exponent d"] positive
    have "unsigned_of_lexeme False (positive_toString (nat (mantissa d)) (exponent d)) = Some (Fin d)"
      by (simp add: dec_canonical)
    moreover obtain c cs where "positive_toString (nat (mantissa d)) (exponent d) = c # cs" "is_digit c"
      using hd_positive_toString [OF pos, of "exponent d"]
      by (cases "positive_toString (nat (mantissa d)) (exponent d)") auto
    ultimately show ?thesis
      using positive by (auto simp add: number_of_lexeme_def is_digit_def)
  qed
qed

lemma toString_shape:
  "\<exists>c cs. toString (Fin d) = c # cs \<and> (c = 45 \<or> is_digit c) \<and> list_all is_number_unit cs"
proof -
  have units: "list_all is_number_unit (toString (Fin d))"
    using number_units_positive_toString
    by (simp add: str_def is_number_unit_def is_digit_def)
  have "toString (Fin d) \<noteq> [] \<and> (hd (toString (Fin d)) = 45 \<or> is_digit (hd (toString (Fin d))))"
    using hd_positive_toString [of "nat (mantissa d)" "exponent d"]
    by (auto simp add: str_def is_digit_def)
  with units show ?thesis
    by (cases "toString (Fin d)") auto
qed


subsection \<open>Parsing what \<^verbatim>\<open>JSON.stringify\<close> wrote for a coordinate\<close>

lemma lex_number_units:
  "list_all is_number_unit cs \<Longrightarrow> lex (InNumber acc) (cs @ r) = lex (InNumber (rev cs @ acc)) r"
  by (induction cs arbitrary: acc) (simp_all split: option.split)

lemma lex_number:
  assumes "c = 45 \<or> is_digit c" "list_all is_number_unit cs"
    and "number_of_lexeme (c # cs) = Some n"
    and "\<not> is_number_unit t" "begin_token t = Some (Between, [tok])"
  shows "lex Between (c # cs @ t # r) =
    (case lex Between r of None \<Rightarrow> None | Some ts \<Rightarrow> Some (TNumber n # tok # ts))"
proof -
  have "begin_token c = Some (InNumber [c], [])"
    using assms(1) by (auto simp add: begin_token_def is_space_def is_digit_def)
  then have "lex Between (c # cs @ t # r) = lex (InNumber [c]) (cs @ t # r)"
    by (simp split: option.split)
  also have "\<dots> = lex (InNumber (rev cs @ [c])) (t # r)"
    using assms(2) by (rule lex_number_units)
  also have "\<dots> = (case lex Between r of None \<Rightarrow> None | Some ts \<Rightarrow> Some (TNumber n # tok # ts))"
    using assms(3-5) by (simp split: option.split)
  finally show ?thesis .
qed

lemma lex_latitude_key:
  "lex Between (str ''{\"latitude\":'' @ r) =
    (case lex Between r of
       None \<Rightarrow> None
     | Some ts \<Rightarrow> Some (LBrace # TString (str ''latitude'') # Colon # ts))"
  by (cases "lex Between r") (simp_all add: str_def begin_token_def is_space_def is_digit_def)

lemma lex_longitude_key:
  "lex Between (str ''\"longitude\":'' @ r) =
    (case lex Between r of
       None \<Rightarrow> None
     | Some ts \<Rightarrow> Some (TString (str ''longitude'') # Colon # ts))"
  by (cases "lex Between r") (simp_all add: str_def begin_token_def is_space_def is_digit_def)

lemma lex_null_word:
  "lex Between (str ''null'' @ r) =
    (case lex Between r of None \<Rightarrow> None | Some ts \<Rightarrow> Some (TNull # ts))"
  by (cases "lex Between r") (simp_all add: str_def begin_token_def is_space_def is_digit_def)

lemma lex_number_value:
  assumes "\<not> is_number_unit t" "begin_token t = Some (Between, [tok])"
  shows "lex Between (JSON_stringify (JNum n) @ t # r) =
    (case lex Between r of None \<Rightarrow> None | Some ts \<Rightarrow> Some (token_of n # tok # ts))"
proof (cases "is_finite n")
  case True
  then obtain d where n: "n = Fin d"
    by (cases n) simp_all
  obtain c cs where shape: "toString (Fin d) = c # cs" "c = 45 \<or> is_digit c"
      "list_all is_number_unit cs"
    using toString_shape [of d] by blast
  have "number_of_lexeme (c # cs) = Some (Fin d)"
    using number_of_toString [of d] shape(1) by simp
  from lex_number [OF shape(2,3) this assms, of r] show ?thesis
    unfolding n token_of_def JSON_stringify.simps is_finite.simps shape(1) by simp
next
  case False
  have "lex Between (t # r) =
      (case lex Between r of None \<Rightarrow> None | Some ts \<Rightarrow> Some (tok # ts))"
    using assms(2) by (simp split: option.split)
  with False show ?thesis
    using lex_null_word [of "t # r"] by (simp add: token_of_def split: option.split)
qed

lemma stringify_coordinate_any:
  "JSON_stringify (coordinate lat lon) =
     str ''{\"latitude\":'' @ JSON_stringify (JNum lat) @ 44 # str ''\"longitude\":'' @
     JSON_stringify (JNum lon) @ [125]"
  by (simp add: stringify_eval str_def)

lemma lex_coordinate_any:
  "lex Between (JSON_stringify (coordinate lat lon)) =
     Some [LBrace, TString (str ''latitude''), Colon, token_of lat, Comma,
           TString (str ''longitude''), Colon, token_of lon, RBrace]"
proof -
  have comma: "\<not> is_number_unit 44" "begin_token 44 = Some (Between, [Comma])"
    by (simp_all add: is_number_unit_def is_digit_def begin_token_def is_space_def)
  have brace: "\<not> is_number_unit 125" "begin_token 125 = Some (Between, [RBrace])"
    by (simp_all add: is_number_unit_def is_digit_def begin_token_def is_space_def)
  have last: "lex Between (JSON_stringify (JNum lon) @ [125]) = Some [token_of lon, RBrace]"
    using lex_number_value [OF brace, of lon "[]"] by simp
  have second: "lex Between (str ''\"longitude\":'' @ JSON_stringify (JNum lon) @ [125]) =
      Some [TString (str ''longitude''), Colon, token_of lon, RBrace]"
    using lex_longitude_key [of "JSON_stringify (JNum lon) @ [125]"] last by simp
  have first: "lex Between (JSON_stringify (JNum lat) @ 44 # str ''\"longitude\":'' @
        JSON_stringify (JNum lon) @ [125]) =
      Some [token_of lat, Comma, TString (str ''longitude''), Colon, token_of lon, RBrace]"
    using lex_number_value
        [OF comma, of lat "str ''\"longitude\":'' @ JSON_stringify (JNum lon) @ [125]"] second
    by simp
  show ?thesis
    unfolding stringify_coordinate_any
    using lex_latitude_key
        [of "JSON_stringify (JNum lat) @ 44 # str ''\"longitude\":'' @
             JSON_stringify (JNum lon) @ [125]"] first
    by simp
qed

text \<open>
  The coordinate object comes back from its own JSON text with every number that is
  not finite replaced by \<^verbatim>\<open>null\<close>; with finite numbers it comes back as it was.
\<close>

lemma parse_stringify_coordinate_any:
  "JSON_parse (JSON_stringify (coordinate lat lon)) =
     Some (JObj [(str ''latitude'', as_json lat), (str ''longitude'', as_json lon)])"
  by (simp add: JSON_parse_def lex_coordinate_any token_of_def as_json_def)
     (simp add: str_def)

lemma as_json_finite: "is_finite n \<Longrightarrow> as_json n = JNum n"
  by (simp add: as_json_def)


subsection \<open>The model on examples\<close>

text \<open>
  \<^verbatim>\<open>Number::toString\<close> in each of its layouts, and \<^verbatim>\<open>JSON.parse\<close> on texts it
  accepts and texts it refuses, as a JavaScript engine answers them.
\<close>

lemma toString_examples:
  "toString (Fin (dec 404168 (- 4))) = str ''40.4168''"
  "toString (Fin (dec (- 5) 3)) = str ''-5000''"
  "toString (Fin (dec 1 20)) = str ''100000000000000000000''"
  "toString (Fin (dec 1 21)) = str ''1e+21''"
  "toString (Fin (dec 15 21)) = str ''1.5e+22''"
  "toString (Fin (dec 1 (- 6))) = str ''0.000001''"
  "toString (Fin (dec 1 (- 7))) = str ''1e-7''"
  "toString (Fin (dec 12 (- 8))) = str ''1.2e-7''"
  "toString (Fin (dec 0 0)) = str ''0''"
  by (simp_all add: number_eval)

lemma JSON_parse_accepts:
  "JSON_parse (str '' [1, 2.50 ,true,null] '') =
     Some (JArr [decimal_number 1 0, decimal_number 25 (- 1), JBool True, JNull])"
  "JSON_parse (str ''{\"a\":1,\"b\":{},\"a\":\"x\"}'') =
     Some (JObj [(str ''a'', JStr (str ''x'')), (str ''b'', JObj [])])"
  "JSON_parse (str ''-0.5e1'') = Some (decimal_number (- 5) 0)"
  "JSON_parse (str ''\"a'' @ [92] @ str ''u0041'' @ [92] @ str ''n\"'') = Some (JStr [97, 65, 10])"
  by (simp_all add: parse_eval number_eval)

lemma JSON_parse_refuses:
  "JSON_parse (str '' '') = None"
  "JSON_parse (str ''[1,]'') = None"
  "JSON_parse (str ''{\"a\":1,}'') = None"
  "JSON_parse (str ''{a:1}'') = None"
  "JSON_parse (str ''01'') = None"
  "JSON_parse (str ''1.'') = None"
  "JSON_parse (str ''.5'') = None"
  "JSON_parse (str ''+1'') = None"
  "JSON_parse (str ''1 2'') = None"
  "JSON_parse (str ''nul'') = None"
  "JSON_parse (str ''NaN'') = None"
  "JSON_parse (str ''\"a'') = None"
  "JSON_parse (str ''undefined'') = None"
  by (simp_all add: parse_eval number_eval)

subsection \<open>Loading and the first render\<close>

lemma JSON_parse_empty: "JSON_parse [] = None"
  by (simp add: JSON_parse_def)

lemma render_created: "render (created st) = created st"
  by (simp add: render_def created_def)

lemma loadMarker_absent:
  "st (str ''marker'') = None \<Longrightarrow>
   loadMarker readable (created st) =
     \<lparr>marker = JNull, loading = False, storage = st, viewport = None,
      calls = GetItem (str ''marker'') # (if readable then [] else [ConsoleLog load_error])\<rparr>"
  by (simp add: loadMarker_def created_def called_def)

lemma loadMarker_empty:
  "st (str ''marker'') = Some [] \<Longrightarrow>
   loadMarker True (created st) =
     \<lparr>marker = JNull, loading = False, storage = st, viewport = None,
      calls = [GetItem (str ''marker'')]\<rparr>"
  by (simp add: loadMarker_def created_def called_def)

lemma loadMarker_unparsable:
  "st (str ''marker'') = Some json \<Longrightarrow> json \<noteq> [] \<Longrightarrow> JSON_parse json = None \<Longrightarrow>
   loadMarker True (created st) =
     \<lparr>marker = JNull, loading = False, storage = st, viewport = None,
      calls = [GetItem (str ''marker''), ConsoleLog load_error]\<rparr>"
  by (simp add: loadMarker_def created_def called_def)

lemma loadMarker_parsed:
  "st (str ''marker'') = Some json \<Longrightarrow> JSON_parse json = Some v \<Longrightarrow>
   loadMarker True (created st) =
     \<lparr>marker = v, loading = False, storage = st, viewport = None,
      calls = [GetItem (str ''marker'')]\<rparr>"
  by (cases "json = []") (simp_all add: loadMarker_def created_def called_def JSON_parse_empty)

lemma render_loaded:
  "render \<lparr>marker = v, loading = False, storage = st, viewport = None, calls = cs\<rparr> =
     \<lparr>marker = v, loading = False, storage = st,
      viewport = Some (initialRegion \<lparr>marker = v, loading = False, storage = st,
                                     viewport = None, calls = cs\<rparr>),
      calls = cs\<rparr>"
  by (simp add: render_def)

lemma initialRegion_null:
  "marker s = JNull \<Longrightarrow>
   initialRegion s =
     \<lparr>latitude = decimal_number 404168 (- 4), longitude = decimal_number (- 37038) (- 4),
      latitudeDelta = decimal_number 1 (- 2), longitudeDelta = decimal_number 1 (- 2)\<rparr>"
  by (simp add: initialRegion_def or_else_def)

text \<open>
  A storage that cannot be read is logged and treated as empty, whatever it holds.
\<close>

lemma unreadable_storage_is_absent:
  "marker (initialise False st) = JNull \<and>
   loading (initialise False st) = False \<and>
   calls (initialise False st) = [GetItem (str ''marker''), ConsoleLog load_error]"
  by (simp add: initialise_def render_created render_def)
     (simp add: loadMarker_def created_def called_def)

text \<open>
  C3. With no record under the key \<^verbatim>\<open>marker\<close>, initialising the screen leaves the
  marker \<^verbatim>\<open>null\<close>, ends the loading state and mounts the map on the fallback region:
  centre 40.4168, -3.7038 and both deltas 0.01. (It does so whether or not the read of
  the storage succeeds.)
\<close>

theorem initialise_without_record:
  "st (str ''marker'') = None \<Longrightarrow>
   marker (initialise readable st) = JNull \<and>
   loading (initialise readable st) = False \<and>
   viewport (initialise readable st) =
     Some \<lparr>latitude = decimal_number 404168 (- 4), longitude = decimal_number (- 37038) (- 4),
           latitudeDelta = decimal_number 1 (- 2), longitudeDelta = decimal_number 1 (- 2)\<rparr>"
  by (simp add: initialise_def render_created loadMarker_absent render_loaded initialRegion_null)

lemma fallback_printed:
  "JSON_stringify (decimal_number 404168 (- 4)) = str ''40.4168''"
  "JSON_stringify (decimal_number (- 37038) (- 4)) = str ''-3.7038''"
  "JSON_stringify (decimal_number 1 (- 2)) = str ''0.01''"
  by (simp_all add: number_eval)

theorem initialise_without_record_witness:
  "[str ''theme'' \<mapsto> str ''dark''] (str ''marker'') = None \<and>
   marker (initialise True [str ''theme'' \<mapsto> str ''dark'']) = JNull \<and>
   loading (initialise True [str ''theme'' \<mapsto> str ''dark'']) = False \<and>
   viewport (initialise True [str ''theme'' \<mapsto> str ''dark'']) =
     Some \<lparr>latitude = decimal_number 404168 (- 4), longitude = decimal_number (- 37038) (- 4),
           latitudeDelta = decimal_number 1 (- 2), longitudeDelta = decimal_number 1 (- 2)\<rparr> \<and>
   JSON_stringify (decimal_number 404168 (- 4)) = str ''40.4168'' \<and>
   JSON_stringify (decimal_number (- 37038) (- 4)) = str ''-3.7038'' \<and>
   JSON_stringify (decimal_number 1 (- 2)) = str ''0.01''"
proof -
  have absent: "[str ''theme'' \<mapsto> str ''dark''] (str ''marker'') = None"
    by (simp add: str_def)
  from absent initialise_without_record [of "[str ''theme'' \<mapsto> str ''dark'']" True]
    fallback_printed
  show ?thesis by blast
qed

lemma initialise_parsed:
  "st (str ''marker'') = Some json \<Longrightarrow> JSON_parse json = Some v \<Longrightarrow>
   initialise True st =
     \<lparr>marker = v, loading = False, storage = st,
      viewport = Some (initialRegion \<lparr>marker = v, loading = False, storage = st,
                                     viewport = None, calls = [GetItem (str ''marker'')]\<rparr>),
      calls = [GetItem (str ''marker'')]\<rparr>"
  by (simp add: initialise_def render_created loadMarker_parsed render_loaded)

text \<open>
  The two screens of the examples are states the screen reaches: an initialisation on
  the empty storage, and one on a storage that holds the marker (1, 2).
\<close>

lemma parked_is_initialised:
  "parked = initialise True [str ''marker'' \<mapsto> str ''{\"latitude\":1,\"longitude\":2}'']"
proof -
  have parsed: "JSON_parse (str ''{\"latitude\":1,\"longitude\":2}'') =
      Some (coordinate (Fin (dec 1 0)) (Fin (dec 2 0)))"
    by (simp add: parse_eval number_eval coordinate_def)
  have stored: "[str ''marker'' \<mapsto> str ''{\"latitude\":1,\"longitude\":2}''] (str ''marker'') =
      Some (str ''{\"latitude\":1,\"longitude\":2}'')"
    by simp
  note init =
    initialise_parsed
      [of "[str ''marker'' \<mapsto> str ''{\"latitude\":1,\"longitude\":2}'']"
          "str ''{\"latitude\":1,\"longitude\":2}''"
          "coordinate (Fin (dec 1 0)) (Fin (dec 2 0))", OF stored parsed]
  show ?thesis
    unfolding init parked_def
    by (simp add: initialRegion_def or_else_def coordinate_def number_eval)
qed


text \<open>
  C9. \<^verbatim>\<open>loadMarker\<close> checks no shape: whatever value \<^verbatim>\<open>JSON.parse\<close> returns for the
  stored text becomes the marker, with nothing logged. (A text that parses is not
  empty, so the guard \<^verbatim>\<open>if (json)\<close> lets it through.)
\<close>

theorem load_installs_parsed_value:
  "st (str ''marker'') = Some json \<Longrightarrow> JSON_parse json = Some v \<Longrightarrow>
   json \<noteq> [] \<and>
   marker (initialise True st) = v \<and>
   loading (initialise True st) = False \<and>
   calls (initialise True st) = [GetItem (str ''marker'')]"
  by (auto simp add: initialise_parsed JSON_parse_empty)

theorem load_installs_parsed_value_witness:
  "JSON_parse (str ''5'') = Some (decimal_number 5 0) \<and>
   marker (initialise True [str ''marker'' \<mapsto> str ''5'']) = decimal_number 5 0 \<and>
   JSON_parse (str ''{\"foo\":1}'') = Some (JObj [(str ''foo'', decimal_number 1 0)]) \<and>
   marker (initialise True [str ''marker'' \<mapsto> str ''{\"foo\":1}'']) =
     JObj [(str ''foo'', decimal_number 1 0)] \<and>
   calls (initialise True [str ''marker'' \<mapsto> str ''{\"foo\":1}'']) = [GetItem (str ''marker'')]"
proof -
  have five: "JSON_parse (str ''5'') = Some (decimal_number 5 0)"
    by (simp add: parse_eval number_eval)
  have foo: "JSON_parse (str ''{\"foo\":1}'') = Some (JObj [(str ''foo'', decimal_number 1 0)])"
    by (simp add: parse_eval number_eval)
  from five foo
    load_installs_parsed_value
      [of "[str ''marker'' \<mapsto> str ''5'']" "str ''5''" "decimal_number 5 0"]
    load_installs_parsed_value
      [of "[str ''marker'' \<mapsto> str ''{\"foo\":1}'']" "str ''{\"foo\":1}''"
          "JObj [(str ''foo'', decimal_number 1 0)]"]
  show ?thesis by simp
qed

text \<open>
  C6, as the code has it. A stored text on which \<^verbatim>\<open>JSON.parse\<close> throws gives what no
  record gives: no marker and the fallback viewport. No alert is shown and the loading
  state ends. The failure is logged with \<^verbatim>\<open>console.log\<close> when the text is not empty;
  the empty text never reaches the parser, and the only call is the read.
\<close>

theorem unparsable_record_is_absent:
  "st (str ''marker'') = Some json \<Longrightarrow> JSON_parse json = None \<Longrightarrow>
   marker (initialise True st) = JNull \<and>
   marker (initialise True st) = marker (initialise True (st(str ''marker'' := None))) \<and>
   viewport (initialise True st) = viewport (initialise True (st(str ''marker'' := None))) \<and>
   loading (initialise True st) = False \<and>
   calls (initialise True st) =
     GetItem (str ''marker'') # (if json = [] then [] else [ConsoleLog load_error])"
  by (cases "json = []")
     (simp_all add: initialise_def render_created loadMarker_unparsable loadMarker_empty
        loadMarker_absent render_loaded initialRegion_null)

theorem unparsable_record_is_absent_witness:
  "JSON_parse (str ''{\"latitude\":1,'') = None \<and>
   marker (initialise True [str ''marker'' \<mapsto> str ''{\"latitude\":1,'']) = JNull \<and>
   loading (initialise True [str ''marker'' \<mapsto> str ''{\"latitude\":1,'']) = False \<and>
   calls (initialise True [str ''marker'' \<mapsto> str ''{\"latitude\":1,'']) =
     [GetItem (str ''marker''), ConsoleLog load_error]"
proof -
  have cut: "JSON_parse (str ''{\"latitude\":1,'') = None"
    by (simp add: parse_eval number_eval)
  have filled: "str ''{\"latitude\":1,'' \<noteq> []"
    by (simp add: str_def)
  from cut filled
    unparsable_record_is_absent
      [of "[str ''marker'' \<mapsto> str ''{\"latitude\":1,'']" "str ''{\"latitude\":1,''"]
  show ?thesis by simp
qed

text \<open>
  C6 as stated fails on the empty string: \<^verbatim>\<open>JSON.parse("")\<close> throws, so the empty
  string is a stored string that fails to parse, but \<^verbatim>\<open>if (json)\<close> keeps it from the
  parser and nothing is logged. The only call is the read.
\<close>

theorem empty_record_not_logged:
  "JSON_parse [] = None \<and>
   marker (initialise True [str ''marker'' \<mapsto> []]) = JNull \<and>
   calls (initialise True [str ''marker'' \<mapsto> []]) = [GetItem (str ''marker'')]"
  by (simp add: JSON_parse_empty initialise_def render_created loadMarker_empty render_loaded)

text \<open>
  C2 fails on the equator and on the prime meridian. With the record
  \<^verbatim>\<open>{"latitude":0,"longitude":20}\<close> stored, the marker is (0, 20), and
  \<^verbatim>\<open>marker?.latitude || 40.4168\<close> takes the fallback because \<open>0\<close> is falsy: the map
  opens on latitude 40.4168 and longitude 20, a point that is neither the marker nor the
  fallback centre.
\<close>

theorem equator_marker_viewport:
  "JSON_stringify (coordinate (Fin (dec 0 0)) (Fin (dec 20 0))) =
     str ''{\"latitude\":0,\"longitude\":20}'' \<and>
   marker (initialise True [str ''marker'' \<mapsto> str ''{\"latitude\":0,\"longitude\":20}'']) =
     coordinate (Fin (dec 0 0)) (Fin (dec 20 0)) \<and>
   viewport (initialise True [str ''marker'' \<mapsto> str ''{\"latitude\":0,\"longitude\":20}'']) =
     Some \<lparr>latitude = decimal_number 404168 (- 4), longitude = decimal_number 20 0,
           latitudeDelta = decimal_number 1 (- 2), longitudeDelta = decimal_number 1 (- 2)\<rparr>"
proof -
  have printed: "JSON_stringify (coordinate (Fin (dec 0 0)) (Fin (dec 20 0))) =
      str ''{\"latitude\":0,\"longitude\":20}''"
    by (simp add: stringify_eval number_eval)
  have parsed: "JSON_parse (str ''{\"latitude\":0,\"longitude\":20}'') =
      Some (coordinate (Fin (dec 0 0)) (Fin (dec 20 0)))"
    by (simp add: parse_eval number_eval coordinate_def)
  have stored: "[str ''marker'' \<mapsto> str ''{\"latitude\":0,\"longitude\":20}''] (str ''marker'') =
      Some (str ''{\"latitude\":0,\"longitude\":20}'')"
    by simp
  have region: "initialRegion \<lparr>marker = coordinate (Fin (dec 0 0)) (Fin (dec 20 0)),
        loading = False, storage = st, viewport = None, calls = cs\<rparr> =
      \<lparr>latitude = decimal_number 404168 (- 4), longitude = decimal_number 20 0,
       latitudeDelta = decimal_number 1 (- 2), longitudeDelta = decimal_number 1 (- 2)\<rparr>"
    for st cs
    by (simp add: initialRegion_def or_else_def coordinate_def number_eval)
  note init =
    initialise_parsed
      [of "[str ''marker'' \<mapsto> str ''{\"latitude\":0,\"longitude\":20}'']"
          "str ''{\"latitude\":0,\"longitude\":20}''"
          "coordinate (Fin (dec 0 0)) (Fin (dec 20 0))", OF stored parsed]
  show ?thesis
    by (simp add: printed init region)
qed

subsection \<open>Removing the marker\<close>

text \<open>
  C4, as the code has it. From every state (so from every state that has a marker),
  \<^verbatim>\<open>handleRemoveMarker\<close> leaves the marker \<^verbatim>\<open>null\<close> in memory. When
  \<^verbatim>\<open>removeItem\<close> resolves, the handler resolves, no record is left under the key
  \<^verbatim>\<open>marker\<close>, and a screen initialised on that storage has no marker. When
  \<^verbatim>\<open>removeItem\<close> rejects, the handler rejects and the storage is as it was.
\<close>

theorem remove_clears_both:
  "marker (fst (handleRemoveMarker writable s)) = JNull \<and>
   (writable \<longrightarrow>
      snd (handleRemoveMarker writable s) = Resolved \<and>
      storage (fst (handleRemoveMarker writable s)) (str ''marker'') = None \<and>
      marker (initialise readable (storage (fst (handleRemoveMarker writable s)))) = JNull) \<and>
   (\<not> writable \<longrightarrow>
      snd (handleRemoveMarker writable s) = Rejected \<and>
      storage (fst (handleRemoveMarker writable s)) = storage s)"
proof -
  have "marker (initialise readable (storage (fst (handleRemoveMarker True s)))) = JNull"
  proof -
    have gone: "storage (fst (handleRemoveMarker True s)) (str ''marker'') = None"
      by (simp add: handleRemoveMarker_def called_def)
    then show ?thesis
      by (simp add: initialise_def render_created loadMarker_absent render_loaded)
  qed
  then show ?thesis
    by (cases writable) (simp_all add: handleRemoveMarker_def called_def)
qed

theorem remove_clears_both_witness:
  "marker parked \<noteq> JNull \<and>
   storage parked (str ''marker'') \<noteq> None \<and>
   snd (handleRemoveMarker True parked) = Resolved \<and>
   marker (fst (handleRemoveMarker True parked)) = JNull \<and>
   storage (fst (handleRemoveMarker True parked)) (str ''marker'') = None \<and>
   marker (initialise True (storage (fst (handleRemoveMarker True parked)))) = JNull \<and>
   snd (handleRemoveMarker False parked) = Rejected \<and>
   marker (fst (handleRemoveMarker False parked)) = JNull \<and>
   storage (fst (handleRemoveMarker False parked)) = storage parked"
proof -
  have "marker parked \<noteq> JNull" "storage parked (str ''marker'') \<noteq> None"
    by (simp_all add: parked_def coordinate_def)
  with remove_clears_both [of True parked True] remove_clears_both [of False parked True]
  show ?thesis by simp
qed

text \<open>
  C4 as stated fails when \<^verbatim>\<open>removeItem\<close> rejects, which the handler does not catch:
  the marker is already \<^verbatim>\<open>null\<close> in memory, the record stays under the key
  \<^verbatim>\<open>marker\<close>, and a restart of the screen has the marker again.
\<close>

theorem rejected_remove_keeps_record:
  "marker parked = coordinate (Fin (dec 1 0)) (Fin (dec 2 0)) \<and>
   snd (handleRemoveMarker False parked) = Rejected \<and>
   marker (fst (handleRemoveMarker False parked)) = JNull \<and>
   storage (fst (handleRemoveMarker False parked)) (str ''marker'') =
     Some (str ''{\"latitude\":1,\"longitude\":2}'') \<and>
   marker (initialise True (storage (fst (handleRemoveMarker False parked)))) =
     coordinate (Fin (dec 1 0)) (Fin (dec 2 0))"
proof -
  have parsed: "JSON_parse (str ''{\"latitude\":1,\"longitude\":2}'') =
      Some (coordinate (Fin (dec 1 0)) (Fin (dec 2 0)))"
    by (simp add: parse_eval number_eval coordinate_def)
  have kept: "storage parked (str ''marker'') = Some (str ''{\"latitude\":1,\"longitude\":2}'')"
    by (simp add: parked_def)
  have "marker (initialise True (storage (fst (handleRemoveMarker False parked)))) =
      coordinate (Fin (dec 1 0)) (Fin (dec 2 0))"
    using kept parsed by (simp add: handleRemoveMarker_def called_def Let_def initialise_parsed)
  then show ?thesis
    using kept by (simp add: handleRemoveMarker_def called_def Let_def) (simp add: parked_def)
qed


subsection \<open>The permission check\<close>

text \<open>
  C5. When the permission request answers anything but \<^verbatim>\<open>granted\<close>, saving and
  centring both end at once: the handler resolves, the marker, the storage, the viewport
  and the loading flag are as before, and the handler has made two calls, the
  permission request and \<^verbatim>\<open>Alert.alert\<close> with the title and the message of the
  source (the accented letter of the message is the code unit 243); so it asked for no
  position and wrote nothing.
\<close>

theorem permission_denied_aborts:
  "status \<noteq> str ''granted'' \<Longrightarrow>
   handleSetMarker status fix writable s =
     (s\<lparr>calls := calls s @
         [RequestForegroundPermissions,
          Alert (str ''Permisos denegados'')
                (str ''Se necesita acceso a la ubicaci'' @ [243] @ str ''n.'')]\<rparr>,
      Resolved) \<and>
   centerMapOnUser status fix s =
     (s\<lparr>calls := calls s @
         [RequestForegroundPermissions,
          Alert (str ''Permisos denegados'')
                (str ''Se necesita acceso a la ubicaci'' @ [243] @ str ''n.'')]\<rparr>,
      Resolved)"
  by (simp add: handleSetMarker_def centerMapOnUser_def called_def permission_alert_def)

theorem permission_denied_aborts_witness:
  "str ''denied'' \<noteq> str ''granted'' \<and>
   fst (handleSetMarker (str ''denied'') (Some (Fin (dec 5 0), Fin (dec 6 0))) True parked) =
     fst (centerMapOnUser (str ''denied'') (Some (Fin (dec 5 0), Fin (dec 6 0))) parked) \<and>
   snd (handleSetMarker (str ''denied'') (Some (Fin (dec 5 0), Fin (dec 6 0))) True parked) = Resolved \<and>
   snd (centerMapOnUser (str ''denied'') (Some (Fin (dec 5 0), Fin (dec 6 0))) parked) = Resolved \<and>
   marker (fst (handleSetMarker (str ''denied'') (Some (Fin (dec 5 0), Fin (dec 6 0))) True parked)) =
     coordinate (Fin (dec 1 0)) (Fin (dec 2 0)) \<and>
   storage (fst (handleSetMarker (str ''denied'') (Some (Fin (dec 5 0), Fin (dec 6 0))) True parked)) =
     [str ''marker'' \<mapsto> str ''{\"latitude\":1,\"longitude\":2}''] \<and>
   viewport (fst (handleSetMarker (str ''denied'') (Some (Fin (dec 5 0), Fin (dec 6 0))) True parked)) =
     Some \<lparr>latitude = decimal_number 1 0, longitude = decimal_number 2 0,
           latitudeDelta = decimal_number 1 (- 2), longitudeDelta = decimal_number 1 (- 2)\<rparr> \<and>
   calls (fst (handleSetMarker (str ''denied'') (Some (Fin (dec 5 0), Fin (dec 6 0))) True parked)) =
     [GetItem (str ''marker''), RequestForegroundPermissions,
      Alert (str ''Permisos denegados'')
            (str ''Se necesita acceso a la ubicaci'' @ [243] @ str ''n.'')]"
proof -
  have denied: "str ''denied'' \<noteq> str ''granted''"
    by (simp add: str_def)
  from denied
    permission_denied_aborts [of "str ''denied''" "Some (Fin (dec 5 0), Fin (dec 6 0))" True parked]
  show ?thesis by (simp add: parked_def)
qed

text \<open>
  C10. In both handlers \<^verbatim>\<open>getCurrentPositionAsync\<close> is called only under a granted
  permission: with any other status the calls the handler makes contain no position
  request, and with \<^verbatim>\<open>granted\<close> the position request is the handler's second call,
  right after the permission request.
\<close>

theorem position_only_after_grant:
  "(status \<noteq> str ''granted'' \<longrightarrow>
      GetCurrentPosition \<notin> set (new_calls s (fst (handleSetMarker status fix writable s))) \<and>
      GetCurrentPosition \<notin> set (new_calls s (fst (centerMapOnUser status fix s)))) \<and>
   (status = str ''granted'' \<longrightarrow>
      take 2 (new_calls s (fst (handleSetMarker status fix writable s))) =
        [RequestForegroundPermissions, GetCurrentPosition] \<and>
      take 2 (new_calls s (fst (centerMapOnUser status fix s))) =
        [RequestForegroundPermissions, GetCurrentPosition])"
  by (simp add: handleSetMarker_def centerMapOnUser_def called_def new_calls_def
        permission_alert_def Let_def split: option.split prod.split)

theorem position_only_after_grant_witness:
  "str ''undetermined'' \<noteq> str ''granted'' \<and>
   GetCurrentPosition \<notin>
     set (new_calls parked (fst (handleSetMarker (str ''undetermined'') None True parked))) \<and>
   GetCurrentPosition \<notin>
     set (new_calls parked (fst (centerMapOnUser (str ''undetermined'') None parked))) \<and>
   take 2 (new_calls parked (fst (handleSetMarker (str ''granted'') None True parked))) =
     [RequestForegroundPermissions, GetCurrentPosition] \<and>
   take 2 (new_calls parked (fst (centerMapOnUser (str ''granted'') None parked))) =
     [RequestForegroundPermissions, GetCurrentPosition]"
proof -
  have other: "str ''undetermined'' \<noteq> str ''granted''"
    by (simp add: str_def)
  from other
    position_only_after_grant [of "str ''undetermined''" parked None True]
    position_only_after_grant [of "str ''granted''" parked None True]
  show ?thesis by blast
qed


subsection \<open>Saving the marker\<close>

lemma handleSetMarker_granted:
  "handleSetMarker (str ''granted'') (Some (lat, lon)) writable s =
     (s\<lparr>marker := coordinate lat lon,
        storage := (if writable then (storage s)(str ''marker'' \<mapsto> JSON_stringify (coordinate lat lon))
                    else storage s),
        calls := calls s @ [RequestForegroundPermissions, GetCurrentPosition,
                            SetItem (str ''marker'') (JSON_stringify (coordinate lat lon))]\<rparr>,
      if writable then Resolved else Rejected)"
  by (simp add: handleSetMarker_def called_def Let_def)

lemma handleRemoveMarker_eq:
  "handleRemoveMarker writable s =
     (s\<lparr>marker := JNull,
        storage := (if writable then (storage s)(str ''marker'' := None) else storage s),
        calls := calls s @ [RemoveItem (str ''marker'')]\<rparr>,
      if writable then Resolved else Rejected)"
  by (simp add: handleRemoveMarker_def called_def Let_def)

lemma restarted_saved_any:
  "marker (restarted (saved lat lon s)) =
     JObj [(str ''latitude'', as_json lat), (str ''longitude'', as_json lon)]"
proof -
  let ?st = "(storage s)(str ''marker'' \<mapsto> JSON_stringify (coordinate lat lon))"
  have "?st (str ''marker'') = Some (JSON_stringify (coordinate lat lon))"
    by simp
  then have "marker (initialise True ?st) =
      JObj [(str ''latitude'', as_json lat), (str ''longitude'', as_json lon)]"
    using parse_stringify_coordinate_any [of lat lon] by (simp add: initialise_parsed)
  then show ?thesis
    by (simp add: handleSetMarker_granted)
qed

lemma restarted_saved:
  "is_finite lat \<Longrightarrow> is_finite lon \<Longrightarrow> marker (restarted (saved lat lon s)) = coordinate lat lon"
  by (simp add: restarted_saved_any as_json_finite coordinate_def)




text \<open>
  C7. For a coordinate with finite latitude and longitude, as every coordinate in
  degrees is: after a save, a restart of the screen has the saved coordinate as its
  marker. After a second save of the same coordinate the marker and the storage are
  what they were after the first, and a restart still loads the coordinate.
\<close>

theorem save_then_load_roundtrip:
  "is_finite lat \<Longrightarrow> is_finite lon \<Longrightarrow>
   marker (restarted (saved lat lon s)) = coordinate lat lon \<and>
   marker (saved lat lon (saved lat lon s)) = marker (saved lat lon s) \<and>
   storage (saved lat lon (saved lat lon s)) = storage (saved lat lon s) \<and>
   marker (restarted (saved lat lon (saved lat lon s))) = coordinate lat lon"
  by (simp add: restarted_saved) (simp add: handleSetMarker_granted)

theorem save_then_load_roundtrip_witness:
  "is_finite (Fin (dec 404168 (- 4))) \<and> is_finite (Fin (dec (- 37038) (- 4))) \<and>
   storage (saved (Fin (dec 404168 (- 4))) (Fin (dec (- 37038) (- 4))) parked) (str ''marker'') =
     Some (str ''{\"latitude\":40.4168,\"longitude\":-3.7038}'') \<and>
   marker (restarted (saved (Fin (dec 404168 (- 4))) (Fin (dec (- 37038) (- 4))) parked)) =
     coordinate (Fin (dec 404168 (- 4))) (Fin (dec (- 37038) (- 4))) \<and>
   storage (saved (Fin (dec 404168 (- 4))) (Fin (dec (- 37038) (- 4)))
             (saved (Fin (dec 404168 (- 4))) (Fin (dec (- 37038) (- 4))) parked)) =
     storage (saved (Fin (dec 404168 (- 4))) (Fin (dec (- 37038) (- 4))) parked) \<and>
   marker (restarted (saved (Fin (dec 404168 (- 4))) (Fin (dec (- 37038) (- 4)))
                       (saved (Fin (dec 404168 (- 4))) (Fin (dec (- 37038) (- 4))) parked))) =
     coordinate (Fin (dec 404168 (- 4))) (Fin (dec (- 37038) (- 4)))"
proof -
  have written: "JSON_stringify (coordinate (Fin (dec 404168 (- 4))) (Fin (dec (- 37038) (- 4)))) =
      str ''{\"latitude\":40.4168,\"longitude\":-3.7038}''"
    by (simp add: stringify_eval number_eval)
  have finite: "is_finite (Fin (dec 404168 (- 4)))" "is_finite (Fin (dec (- 37038) (- 4)))"
    by simp_all
  have stored: "storage (saved (Fin (dec 404168 (- 4))) (Fin (dec (- 37038) (- 4))) parked)
      (str ''marker'') = Some (str ''{\"latitude\":40.4168,\"longitude\":-3.7038}'')"
    by (simp add: handleSetMarker_granted written)
  from save_then_load_roundtrip [OF finite, of parked] finite stored
  show ?thesis
    by blast
qed

subsection \<open>Memory and storage\<close>

text \<open>
  C8, as the code has it. When the storage promise resolves, a set with a finite fix,
  and a clear, end with the marker in memory equal to the marker a restart would decode
  from the storage. When the storage promise rejects, the handler rejects with the
  marker in memory already changed and the storage as it was.
\<close>

theorem write_through_when_storage_resolves:
  "(is_finite lat \<and> is_finite lon \<longrightarrow>
      marker (restarted (saved lat lon s)) = marker (saved lat lon s)) \<and>
   marker (restarted (fst (handleRemoveMarker True s))) = marker (fst (handleRemoveMarker True s)) \<and>
   handleSetMarker (str ''granted'') (Some (lat, lon)) False s =
     (s\<lparr>marker := coordinate lat lon,
        calls := calls s @ [RequestForegroundPermissions, GetCurrentPosition,
                            SetItem (str ''marker'') (JSON_stringify (coordinate lat lon))]\<rparr>,
      Rejected) \<and>
   handleRemoveMarker False s =
     (s\<lparr>marker := JNull, calls := calls s @ [RemoveItem (str ''marker'')]\<rparr>, Rejected)"
proof -
  have "marker (restarted (saved lat lon s)) = marker (saved lat lon s)"
    if "is_finite lat" "is_finite lon"
    using restarted_saved [OF that, of s] by (simp add: handleSetMarker_granted)
  moreover have "marker (restarted (fst (handleRemoveMarker True s))) =
      marker (fst (handleRemoveMarker True s))"
    by (simp add: handleRemoveMarker_eq initialise_def render_created loadMarker_absent
          render_loaded)
  ultimately show ?thesis
    by (simp add: handleSetMarker_granted handleRemoveMarker_eq)
qed

theorem write_through_when_storage_resolves_witness:
  "is_finite (Fin (dec 5 0)) \<and> is_finite (Fin (dec 6 0)) \<and>
   marker (restarted (saved (Fin (dec 5 0)) (Fin (dec 6 0)) parked)) =
     coordinate (Fin (dec 5 0)) (Fin (dec 6 0)) \<and>
   marker (saved (Fin (dec 5 0)) (Fin (dec 6 0)) parked) =
     coordinate (Fin (dec 5 0)) (Fin (dec 6 0)) \<and>
   marker (restarted (fst (handleRemoveMarker True parked))) = JNull \<and>
   marker (fst (handleRemoveMarker True parked)) = JNull"
proof -
  have finite: "is_finite (Fin (dec 5 0))" "is_finite (Fin (dec 6 0))"
    by simp_all
  have "marker (saved (Fin (dec 5 0)) (Fin (dec 6 0)) parked) =
      coordinate (Fin (dec 5 0)) (Fin (dec 6 0))"
    "marker (fst (handleRemoveMarker True parked)) = JNull"
    by (simp_all add: handleSetMarker_granted handleRemoveMarker_eq)
  with write_through_when_storage_resolves [of "Fin (dec 5 0)" "Fin (dec 6 0)" parked] finite
  show ?thesis
    by simp
qed

text \<open>
  C8 as stated fails without a crash. A \<^verbatim>\<open>setItem\<close> that rejects leaves the new marker
  in memory and none in the storage; a \<^verbatim>\<open>removeItem\<close> that rejects leaves no marker in
  memory and the old one in the storage, which a restart shows again. And a save that
  resolves with a fix that is not finite leaves \<^verbatim>\<open>-Infinity\<close> in memory and \<^verbatim>\<open>null\<close>
  in the record.
\<close>

theorem rejected_write_diverges:
  "snd (handleSetMarker (str ''granted'') (Some (Fin (dec 1 0), Fin (dec 2 0))) False fresh) = Rejected \<and>
   marker (fst (handleSetMarker (str ''granted'') (Some (Fin (dec 1 0), Fin (dec 2 0))) False fresh)) =
     coordinate (Fin (dec 1 0)) (Fin (dec 2 0)) \<and>
   marker (restarted
     (fst (handleSetMarker (str ''granted'') (Some (Fin (dec 1 0), Fin (dec 2 0))) False fresh))) = JNull \<and>
   snd (handleRemoveMarker False parked) = Rejected \<and>
   marker (fst (handleRemoveMarker False parked)) = JNull \<and>
   marker (restarted (fst (handleRemoveMarker False parked))) =
     coordinate (Fin (dec 1 0)) (Fin (dec 2 0)) \<and>
   snd (handleSetMarker (str ''granted'') (Some (Fin (dec 1 0), NegInfinity)) True fresh) = Resolved \<and>
   marker (saved (Fin (dec 1 0)) NegInfinity fresh) = coordinate (Fin (dec 1 0)) NegInfinity \<and>
   marker (restarted (saved (Fin (dec 1 0)) NegInfinity fresh)) =
     JObj [(str ''latitude'', JNum (Fin (dec 1 0))), (str ''longitude'', JNull)]"
proof -
  have empty: "storage fresh (str ''marker'') = None"
    by (simp add: fresh_def initialise_def render_created loadMarker_absent render_loaded)
  have set_rejected:
    "marker (restarted
       (fst (handleSetMarker (str ''granted'') (Some (Fin (dec 1 0), Fin (dec 2 0))) False fresh))) = JNull"
    using empty
    by (simp add: handleSetMarker_granted initialise_def render_created loadMarker_absent
          render_loaded)
  have parsed: "JSON_parse (str ''{\"latitude\":1,\"longitude\":2}'') =
      Some (coordinate (Fin (dec 1 0)) (Fin (dec 2 0)))"
    by (simp add: parse_eval number_eval coordinate_def)
  have kept: "storage parked (str ''marker'') = Some (str ''{\"latitude\":1,\"longitude\":2}'')"
    by (simp add: parked_def)
  have remove_rejected:
    "marker (restarted (fst (handleRemoveMarker False parked))) =
       coordinate (Fin (dec 1 0)) (Fin (dec 2 0))"
    using kept parsed by (simp add: handleRemoveMarker_eq initialise_parsed)
  have written: "JSON_stringify (coordinate (Fin (dec 1 0)) NegInfinity) =
      str ''{\"latitude\":1,\"longitude\":null}''"
    by (simp add: stringify_eval number_eval)
  have parsed_null: "JSON_parse (str ''{\"latitude\":1,\"longitude\":null}'') =
      Some (JObj [(str ''latitude'', JNum (Fin (dec 1 0))), (str ''longitude'', JNull)])"
    by (simp add: parse_eval number_eval)
  have infinite:
    "marker (restarted (saved (Fin (dec 1 0)) NegInfinity fresh)) =
       JObj [(str ''latitude'', JNum (Fin (dec 1 0))), (str ''longitude'', JNull)]"
    using parsed_null by (simp add: handleSetMarker_granted written initialise_parsed)
  show ?thesis
    by (simp add: set_rejected remove_rejected infinite)
       (simp add: handleSetMarker_granted handleRemoveMarker_eq)
qed

end
